theory Spec2Isabelle
  imports Complex_Main
begin

section \<open>The configuration header\<close>

text \<open>
  The only source of the rasterizer under verification is
  \<^verbatim>\<open>src/octree_decoupoly_rasterizer/cuda/config.h\<close>: a list of preprocessor
  lines. The header is embedded line by line, and the preprocessor's view of it (which
  names are defined, what an object-like macro expands to) is computed from that list.
\<close>

subsection \<open>Lines and replacement lists\<close>

text \<open>
  The replacement list of an object-like macro of this header is empty (a switch that is
  only tested with \<^verbatim>\<open>#ifdef\<close>), an integer literal, or a parenthesised product of
  literals and macro names.
\<close>

datatype body =
    Flag
  | Lit int
  | Ref string
  | Times body body

text \<open>
  A line of the header. \<open>Comment t\<close> is a line \<^verbatim>\<open>// t\<close>; \<open>Define n b\<close> is
  \<^verbatim>\<open>#define n b\<close>. No macro of the header takes parameters.
\<close>

datatype line =
    Pragma string
  | Blank
  | Comment string
  | Define string body

definition config_h :: "line list" where
  "config_h =
    [ Pragma ''once'',
      Blank,
      Comment ''#define DEBUG'',
      Define ''BLOCK_X'' (Lit 8),
      Define ''BLOCK_Y'' (Lit 8),
      Define ''CHANNELS'' (Lit 3),
      Define ''MEM_ALIGNMENT'' (Lit 256),
      Define ''MAX_TREE_DEPTH'' (Lit 10),
      Define ''PREFETCH_BUFFER_SIZE'' (Lit 8),
      Define ''SAMPLE_DIM'' (Lit 8),
      Blank,
      Comment ''Decoupoly Shape'',
      Define ''DECOUPOLY_DEGREE'' (Lit 8),
      Define ''DECOUPOLY_RANK'' (Lit 16),
      Define ''DECOUPOLY_V_SIZE'' (Times (Ref ''DECOUPOLY_RANK'') (Lit 3)),
      Define ''DECOUPOLY_G_SIZE'' (Times (Ref ''DECOUPOLY_RANK'') (Ref ''DECOUPOLY_DEGREE'')),
      Blank,
      Comment ''Optimizations'',
      Define ''ASYNC_GLOBAL_TO_SHARED'' Flag,
      Blank,
      Comment ''#define GRAD_GLOBAL'',
      Comment ''#define GRAD_SHARED_TO_GLOBAL'',
      Define ''GRAD_LOCAL_TO_GLOBAL'' Flag,
      Comment ''#define GRAD_LOCAL_REDUCED_TO_GLOBAL'' ]"

subsection \<open>The macro table\<close>

text \<open>The active definitions of a header, in the order of the file.\<close>

fun macros :: "line list \<Rightarrow> (string \<times> body) list" where
  "macros [] = []"
| "macros (Define n b # ls) = (n, b) # macros ls"
| "macros (_ # ls) = macros ls"

definition macro_body :: "line list \<Rightarrow> string \<Rightarrow> body option" where
  "macro_body cfg n = map_of (macros cfg) n"

text \<open>\<^verbatim>\<open>#ifdef n\<close> after the header has been read.\<close>

definition defined :: "line list \<Rightarrow> string \<Rightarrow> bool" where
  "defined cfg n = (n \<in> set (map fst (macros cfg)))"

text \<open>How many \<^verbatim>\<open>#define\<close> lines of the header name \<open>n\<close>.\<close>

definition definitions_of :: "line list \<Rightarrow> string \<Rightarrow> nat" where
  "definitions_of cfg n = length (filter (\<lambda>p. fst p = n) (macros cfg))"

subsection \<open>Expansion to an integer constant\<close>

text \<open>
  The literals are of C type \<^verbatim>\<open>int\<close> (32 bits in CUDA); a product that leaves the
  range of \<^verbatim>\<open>int\<close> has no value.
\<close>

definition int_range :: "int \<Rightarrow> bool" where
  "int_range v = (- (2 ^ 31) \<le> v \<and> v < 2 ^ 31)"

definition times_int :: "int option \<Rightarrow> int option \<Rightarrow> int option" where
  "times_int a b =
     (case a of
        None \<Rightarrow> None
      | Some x \<Rightarrow>
          (case b of
             None \<Rightarrow> None
           | Some y \<Rightarrow> if int_range (x * y) then Some (x * y) else None))"

text \<open>
  Expansion replaces a macro name by its replacement list and rescans the result. The
  fuel bounds the number of nested replacements; a name that is not defined, a switch
  without replacement text, and exhausted fuel give no integer.
\<close>

fun expand :: "(string \<times> body) list \<Rightarrow> nat \<Rightarrow> body \<Rightarrow> int option" where
  "expand tbl fuel Flag = None"
| "expand tbl fuel (Lit v) = (if int_range v then Some v else None)"
| "expand tbl fuel (Times a b) = times_int (expand tbl fuel a) (expand tbl fuel b)"
| "expand tbl 0 (Ref n) = None"
| "expand tbl (Suc fuel) (Ref n) =
     (case map_of tbl n of
        None \<Rightarrow> None
      | Some b \<Rightarrow> expand tbl fuel b)"

text \<open>
  The value a use of the macro name has in the kernels. One unit of fuel per table entry
  is enough for every chain of replacements that does not pass through a name twice.
\<close>

definition macro_value :: "line list \<Rightarrow> string \<Rightarrow> int option" where
  "macro_value cfg n = expand (macros cfg) (length (macros cfg)) (Ref n)"

section \<open>Routines of the kernels\<close>

text \<open>
  The kernels that include the header (traversal, prefetch, forward and backward pass) are
  not among the sources. Where a property is about what they do with a constant of the
  header, the routine is written down here from its specification, and it reads its
  constant from the header.
\<close>

subsection \<open>Octree traversal\<close>

text \<open>
  Modelled from the spec: the octree of section 3, whose type is missing from the
  sources. A node is a leaf or an internal node with 8 children; the tree is an arena
  indexed by node number (section 9), the root at index 0, and the children of an
  internal node are the 8 consecutive entries from \<open>first\<close>, addressed by spatial code.
\<close>

datatype node =
    Leaf
  | Internal (first: nat)

type_synonym octree = "node list"

text \<open>
  Modelled from the spec: a 3D position (section 3, Sample). The coordinates are taken as
  real numbers; the kernels' floating-point type is missing from the sources, and the
  number of levels a traversal descends does not depend on how the offsets are rounded,
  only on the depth counter.
\<close>

type_synonym vec3 = "real \<times> real \<times> real"

text \<open>The depth cap of the traversal, as the header defines it.\<close>

definition MAX_TREE_DEPTH :: nat where
  "MAX_TREE_DEPTH =
     (case macro_value config_h ''MAX_TREE_DEPTH'' of
        None \<Rightarrow> 0
      | Some d \<Rightarrow> nat d)"

text \<open>
  Modelled from the spec: the octant code of section 4.1, missing with the traversal
  routine: a 3-bit code from the sign of each axis offset of the point from the node
  centre.
\<close>

definition octant :: "vec3 \<Rightarrow> vec3 \<Rightarrow> nat" where
  "octant p c =
     (case p of (px, py, pz) \<Rightarrow>
      case c of (cx, cy, cz) \<Rightarrow>
        (if cx \<le> px then 1 else 0) + (if cy \<le> py then 2 else 0)
          + (if cz \<le> pz then 4 else 0))"

text \<open>
  Modelled from the spec: the centre of the child cell that holds the point, missing
  with the traversal routine; \<open>h\<close> is the half extent of the parent cell.
\<close>

definition child_center :: "vec3 \<Rightarrow> real \<Rightarrow> vec3 \<Rightarrow> vec3" where
  "child_center c h p =
     (case p of (px, py, pz) \<Rightarrow>
      case c of (cx, cy, cz) \<Rightarrow>
        (if cx \<le> px then cx + h / 2 else cx - h / 2,
         if cy \<le> py then cy + h / 2 else cy - h / 2,
         if cz \<le> pz then cz + h / 2 else cz - h / 2))"

text \<open>
  Modelled from the spec: how a traversal ends. It reaches a leaf, it stops at the depth
  cap on a node that is still internal, the point is outside the root volume, or a child
  index leaves the arena.
\<close>

datatype outcome =
    Found nat
  | Capped nat
  | Outside
  | Dangling

text \<open>
  Modelled from the spec: the descent loop of sections 4.1 and 9, missing from the
  sources: a loop with an explicit depth counter \<open>d\<close> that carries the node index \<open>i\<close>
  and the cell (\<open>c\<close>, \<open>h\<close>); it ends on a leaf or at the cap. The result is the outcome
  and the number of levels descended.
\<close>

function descend :: "octree \<Rightarrow> vec3 \<Rightarrow> nat \<Rightarrow> vec3 \<Rightarrow> real \<Rightarrow> nat \<Rightarrow> outcome \<times> nat" where
  "descend t p i c h d =
     (if length t \<le> i then (Dangling, d)
      else case t ! i of
             Leaf \<Rightarrow> (Found i, d)
           | Internal f \<Rightarrow>
               if MAX_TREE_DEPTH \<le> d then (Capped i, d)
               else descend t p (f + octant p c) (child_center c h p) (h / 2) (Suc d))"
  by pat_completeness auto

termination
  by (relation "measure (\<lambda>(t, p, i, c, h, d). MAX_TREE_DEPTH - d)") auto

declare descend.simps [simp del]

text \<open>
  Modelled from the spec: the root volume test of section 4.1, missing with the
  traversal routine; the root cell has centre \<open>c\<close> and half extent \<open>h\<close>.
\<close>

definition inside :: "vec3 \<Rightarrow> vec3 \<Rightarrow> real \<Rightarrow> bool" where
  "inside p c h =
     (case p of (px, py, pz) \<Rightarrow>
      case c of (cx, cy, cz) \<Rightarrow>
        \<bar>px - cx\<bar> \<le> h \<and> \<bar>py - cy\<bar> \<le> h \<and> \<bar>pz - cz\<bar> \<le> h)"

text \<open>
  Modelled from the spec: the traversal of section 4.1, missing from the sources. A point
  outside the root volume contributes nothing; any other point is followed down from the
  root at depth 0.
\<close>

definition traverse :: "octree \<Rightarrow> vec3 \<Rightarrow> real \<Rightarrow> vec3 \<Rightarrow> outcome \<times> nat" where
  "traverse t c h p = (if inside p c h then descend t p 0 c h 0 else (Outside, 0))"

text \<open>
  Modelled from the spec: the sequence of leaf references a traversal returns
  (section 4.1), empty unless a leaf was reached.
\<close>

fun leaves :: "outcome \<times> nat \<Rightarrow> nat list" where
  "leaves (Found i, d) = [i]"
| "leaves (_, d) = []"

subsection \<open>Prefetch staging\<close>

text \<open>The depth of the staging buffer, as the header defines it.\<close>

definition PREFETCH_BUFFER_SIZE :: nat where
  "PREFETCH_BUFFER_SIZE =
     (case macro_value config_h ''PREFETCH_BUFFER_SIZE'' of
        None \<Rightarrow> 0
      | Some n \<Rightarrow> nat n)"

text \<open>
  Modelled from the spec: the error of section 7 (c), a tile whose working leaf set
  exceeds the scratch capacity; the pass that raises it is missing from the sources.
\<close>

datatype pass_error = WorkspaceOverflow

text \<open>
  Modelled from the spec: staging one entry into the on-chip buffer (section 4.3),
  missing with the prefetch routine. The buffer holds at most
  \<^verbatim>\<open>PREFETCH_BUFFER_SIZE\<close> entries; with no free slot, staging fails.
\<close>

definition stage :: "'a list \<Rightarrow> 'a \<Rightarrow> 'a list option" where
  "stage buf x = (if length buf < PREFETCH_BUFFER_SIZE then Some (buf @ [x]) else None)"

text \<open>
  Modelled from the spec: staging the working set of one tile, entry by entry, missing
  with the prefetch routine.
\<close>

fun stage_all :: "'a list \<Rightarrow> 'a list \<Rightarrow> 'a list option" where
  "stage_all buf [] = Some buf"
| "stage_all buf (x # xs) =
     (case stage buf x of
        None \<Rightarrow> None
      | Some buf' \<Rightarrow> stage_all buf' xs)"

text \<open>
  Modelled from the spec: the precondition check of section 7, missing from the sources.
  Workspace overflow is surfaced before the pass begins.
\<close>

definition precondition_check :: "'a list list \<Rightarrow> pass_error + unit" where
  "precondition_check tiles =
     (if list_ex (\<lambda>ws. PREFETCH_BUFFER_SIZE < length ws) tiles
      then Inl WorkspaceOverflow else Inr ())"

text \<open>
  Modelled from the spec: a pass over the working sets of the tiles, missing from the
  sources: the precondition check first, then every tile stages its working set into a
  buffer of its own.
\<close>

definition run_pass :: "'a list list \<Rightarrow> pass_error + 'a list option list" where
  "run_pass tiles =
     (case precondition_check tiles of
        Inl e \<Rightarrow> Inl e
      | Inr _ \<Rightarrow> Inr (map (stage_all []) tiles))"

section \<open>Facts about the macro table\<close>

lemma macros_config_h:
  "macros config_h =
    [ (''BLOCK_X'', Lit 8),
      (''BLOCK_Y'', Lit 8),
      (''CHANNELS'', Lit 3),
      (''MEM_ALIGNMENT'', Lit 256),
      (''MAX_TREE_DEPTH'', Lit 10),
      (''PREFETCH_BUFFER_SIZE'', Lit 8),
      (''SAMPLE_DIM'', Lit 8),
      (''DECOUPOLY_DEGREE'', Lit 8),
      (''DECOUPOLY_RANK'', Lit 16),
      (''DECOUPOLY_V_SIZE'', Times (Ref ''DECOUPOLY_RANK'') (Lit 3)),
      (''DECOUPOLY_G_SIZE'', Times (Ref ''DECOUPOLY_RANK'') (Ref ''DECOUPOLY_DEGREE'')),
      (''ASYNC_GLOBAL_TO_SHARED'', Flag),
      (''GRAD_LOCAL_TO_GLOBAL'', Flag) ]"
  by (simp add: config_h_def)

lemma max_tree_depth: "MAX_TREE_DEPTH = 10"
  by code_simp

lemma prefetch_buffer_size: "PREFETCH_BUFFER_SIZE = 8"
  by code_simp


section \<open>Sizes and constants fixed by the header\<close>

text \<open>
  C1. The basis-vector block of a leaf has length \<open>R * 3\<close> and its coefficient block has
  length \<open>R * K\<close>, where \<open>R\<close> is \<^verbatim>\<open>DECOUPOLY_RANK\<close> and \<open>K\<close> is
  \<^verbatim>\<open>DECOUPOLY_DEGREE\<close>: \<^verbatim>\<open>DECOUPOLY_V_SIZE\<close> is defined as the product of the rank
  and 3 and has the value 48, \<^verbatim>\<open>DECOUPOLY_G_SIZE\<close> is defined as the product of the
  rank and the degree and has the value 128. Both are object-like macros with a single
  definition, so the sizes are the same numbers wherever they are used, for every leaf.
\<close>

theorem decoupoly_layout_sizes:
  "macro_body config_h ''DECOUPOLY_V_SIZE'' = Some (Times (Ref ''DECOUPOLY_RANK'') (Lit 3))
   \<and> macro_body config_h ''DECOUPOLY_G_SIZE''
       = Some (Times (Ref ''DECOUPOLY_RANK'') (Ref ''DECOUPOLY_DEGREE''))
   \<and> macro_value config_h ''DECOUPOLY_RANK'' = Some 16
   \<and> macro_value config_h ''DECOUPOLY_DEGREE'' = Some 8
   \<and> macro_value config_h ''DECOUPOLY_V_SIZE''
       = times_int (macro_value config_h ''DECOUPOLY_RANK'') (Some 3)
   \<and> macro_value config_h ''DECOUPOLY_G_SIZE''
       = times_int (macro_value config_h ''DECOUPOLY_RANK'')
           (macro_value config_h ''DECOUPOLY_DEGREE'')
   \<and> macro_value config_h ''DECOUPOLY_V_SIZE'' = Some 48
   \<and> macro_value config_h ''DECOUPOLY_G_SIZE'' = Some 128
   \<and> definitions_of config_h ''DECOUPOLY_V_SIZE'' = 1
   \<and> definitions_of config_h ''DECOUPOLY_G_SIZE'' = 1"
proof -
  have bodies:
    "macro_body config_h ''DECOUPOLY_V_SIZE'' = Some (Times (Ref ''DECOUPOLY_RANK'') (Lit 3))"
    "macro_body config_h ''DECOUPOLY_G_SIZE''
       = Some (Times (Ref ''DECOUPOLY_RANK'') (Ref ''DECOUPOLY_DEGREE''))"
    by (simp_all add: macro_body_def macros_config_h)
  have r: "macro_value config_h ''DECOUPOLY_RANK'' = Some 16"
    by code_simp
  have k: "macro_value config_h ''DECOUPOLY_DEGREE'' = Some 8"
    by code_simp
  have v: "macro_value config_h ''DECOUPOLY_V_SIZE'' = Some 48"
    by code_simp
  have g: "macro_value config_h ''DECOUPOLY_G_SIZE'' = Some 128"
    by code_simp
  have products: "times_int (Some 16) (Some 3) = Some 48" "times_int (Some 16) (Some 8) = Some 128"
    by (simp_all add: times_int_def int_range_def)
  have once:
    "definitions_of config_h ''DECOUPOLY_V_SIZE'' = 1"
    "definitions_of config_h ''DECOUPOLY_G_SIZE'' = 1"
    by (simp_all add: definitions_of_def macros_config_h)
  show ?thesis
    using bodies r k v g products once by simp
qed

text \<open>
  C5. The tile of the rasterizer is 8 pixels wide and 8 pixels tall: \<^verbatim>\<open>BLOCK_X\<close> and
  \<^verbatim>\<open>BLOCK_Y\<close> are both the literal 8, each defined once, so every tile of the forward
  and of the backward pass has these dimensions.
\<close>

theorem tile_size_8x8:
  "macro_body config_h ''BLOCK_X'' = Some (Lit 8)
   \<and> macro_body config_h ''BLOCK_Y'' = Some (Lit 8)
   \<and> macro_value config_h ''BLOCK_X'' = Some 8
   \<and> macro_value config_h ''BLOCK_Y'' = Some 8
   \<and> definitions_of config_h ''BLOCK_X'' = 1
   \<and> definitions_of config_h ''BLOCK_Y'' = 1"
proof -
  have "macro_value config_h ''BLOCK_X'' = Some 8" "macro_value config_h ''BLOCK_Y'' = Some 8"
    by code_simp+
  then show ?thesis
    by (simp add: macro_body_def definitions_of_def macros_config_h)
qed

text \<open>
  C6. The shape of the decoupoly is fixed at rank 16 and degree 8: \<^verbatim>\<open>DECOUPOLY_RANK\<close>
  and \<^verbatim>\<open>DECOUPOLY_DEGREE\<close> are integer literals of the header, each defined exactly
  once, so they are constants of the compilation and nothing at run time sets them.
\<close>

theorem decoupoly_shape_fixed:
  "macro_body config_h ''DECOUPOLY_RANK'' = Some (Lit 16)
   \<and> macro_body config_h ''DECOUPOLY_DEGREE'' = Some (Lit 8)
   \<and> macro_value config_h ''DECOUPOLY_RANK'' = Some 16
   \<and> macro_value config_h ''DECOUPOLY_DEGREE'' = Some 8
   \<and> definitions_of config_h ''DECOUPOLY_RANK'' = 1
   \<and> definitions_of config_h ''DECOUPOLY_DEGREE'' = 1"
proof -
  have "macro_value config_h ''DECOUPOLY_RANK'' = Some 16"
    "macro_value config_h ''DECOUPOLY_DEGREE'' = Some 8"
    by code_simp+
  then show ?thesis
    by (simp add: macro_body_def definitions_of_def macros_config_h)
qed

text \<open>
  C7. The number of colour channels is fixed at 3: \<^verbatim>\<open>CHANNELS\<close> is the literal 3,
  defined once, and it is the width of every leaf's appearance descriptor and of every
  pixel's colour.
\<close>

theorem channels_3:
  "macro_body config_h ''CHANNELS'' = Some (Lit 3)
   \<and> macro_value config_h ''CHANNELS'' = Some 3
   \<and> definitions_of config_h ''CHANNELS'' = 1"
proof -
  have "macro_value config_h ''CHANNELS'' = Some 3"
    by code_simp
  then show ?thesis
    by (simp add: macro_body_def definitions_of_def macros_config_h)
qed

text \<open>
  C9. The sampling dimension is a structural constant equal to 8: \<^verbatim>\<open>SAMPLE_DIM\<close> is
  the literal 8, defined once; the number of samples batched per pixel is fixed when the
  kernels are compiled.
\<close>

theorem sample_dim_8:
  "macro_body config_h ''SAMPLE_DIM'' = Some (Lit 8)
   \<and> macro_value config_h ''SAMPLE_DIM'' = Some 8
   \<and> definitions_of config_h ''SAMPLE_DIM'' = 1"
proof -
  have "macro_value config_h ''SAMPLE_DIM'' = Some 8"
    by code_simp
  then show ?thesis
    by (simp add: macro_body_def definitions_of_def macros_config_h)
qed

text \<open>
  C10. The memory alignment of the bulk buffers is the structural constant 256:
  \<^verbatim>\<open>MEM_ALIGNMENT\<close> is the literal 256, defined once.
\<close>

theorem mem_alignment_256:
  "macro_body config_h ''MEM_ALIGNMENT'' = Some (Lit 256)
   \<and> macro_value config_h ''MEM_ALIGNMENT'' = Some 256
   \<and> definitions_of config_h ''MEM_ALIGNMENT'' = 1"
proof -
  have "macro_value config_h ''MEM_ALIGNMENT'' = Some 256"
    by code_simp
  then show ?thesis
    by (simp add: macro_body_def definitions_of_def macros_config_h)
qed

section \<open>Gradient-merge switches\<close>

text \<open>
  Of the macros the header defines, exactly one is named \<^verbatim>\<open>GRAD_...\<close>:
  \<^verbatim>\<open>GRAD_LOCAL_TO_GLOBAL\<close>. The three other names of lines 21 to 24 stand in
  comments, so \<^verbatim>\<open>#ifdef\<close> does not find them defined. What the backward kernel
  does under each of the four names is decided by that kernel, which is not among the
  sources.
\<close>

lemma grad_switch_defined:
  "filter (\<lambda>n. take 5 n = ''GRAD_'') (map fst (macros config_h)) = [''GRAD_LOCAL_TO_GLOBAL'']
   \<and> defined config_h ''GRAD_LOCAL_TO_GLOBAL''
   \<and> \<not> defined config_h ''GRAD_GLOBAL''
   \<and> \<not> defined config_h ''GRAD_SHARED_TO_GLOBAL''
   \<and> \<not> defined config_h ''GRAD_LOCAL_REDUCED_TO_GLOBAL''"
  by (simp add: defined_def macros_config_h)

section \<open>Depth cap of the traversal\<close>

lemma descend_depth:
  "d \<le> MAX_TREE_DEPTH \<Longrightarrow> snd (descend t p i c h d) \<le> MAX_TREE_DEPTH"
proof (induction t p i c h d rule: descend.induct)
  case (1 t p i c h d)
  show ?case
  proof (cases "length t \<le> i")
    case True
    then show ?thesis using "1.prems" by (simp add: descend.simps)
  next
    case False
    show ?thesis
    proof (cases "t ! i")
      case Leaf
      then show ?thesis using False "1.prems" by (simp add: descend.simps)
    next
      case (Internal f)
      show ?thesis
      proof (cases "MAX_TREE_DEPTH \<le> d")
        case True
        then show ?thesis using False Internal "1.prems" by (simp add: descend.simps)
      next
        case deeper: False
        then have "Suc d \<le> MAX_TREE_DEPTH" by simp
        from "1.IH" [OF False Internal deeper this]
        show ?thesis using False Internal deeper by (simp add: descend.simps [of t p i])
      qed
    qed
  qed
qed

lemma descend_capped:
  "d \<le> MAX_TREE_DEPTH \<Longrightarrow> fst (descend t p i c h d) = Capped j \<Longrightarrow>
     snd (descend t p i c h d) = MAX_TREE_DEPTH \<and> j < length t
       \<and> t ! j = Internal (first (t ! j))"
proof (induction t p i c h d rule: descend.induct)
  case (1 t p i c h d)
  show ?case
  proof (cases "length t \<le> i")
    case True
    then show ?thesis using "1.prems" by (simp add: descend.simps)
  next
    case False
    show ?thesis
    proof (cases "t ! i")
      case Leaf
      then show ?thesis using False "1.prems" by (simp add: descend.simps)
    next
      case (Internal f)
      show ?thesis
      proof (cases "MAX_TREE_DEPTH \<le> d")
        case True
        then show ?thesis using False Internal "1.prems" by (auto simp add: descend.simps)
      next
        case deeper: False
        then have le: "Suc d \<le> MAX_TREE_DEPTH" by simp
        have eq: "descend t p i c h d
                = descend t p (f + octant p c) (child_center c h p) (h / 2) (Suc d)"
          using False Internal deeper by (simp add: descend.simps [of t p i])
        from "1.IH" [OF False Internal deeper le] "1.prems"(2)
        show ?thesis unfolding eq by simp
      qed
    qed
  qed
qed

text \<open>
  C4. The depth cap is 10, and for every tree, root cell and query point the traversal
  returns after at most 10 levels of descent. A path that would need to go deeper (the
  node reached at the cap is still internal) ends at depth 10 exactly. The traversal is a
  total function: the descent loop is defined with the measure
  \<open>MAX_TREE_DEPTH - d\<close>, so it returns on every input, also on an arena whose child
  indices form a cycle.
\<close>

theorem traversal_depth_cap:
  "MAX_TREE_DEPTH = 10
   \<and> snd (traverse t c h p) \<le> MAX_TREE_DEPTH
   \<and> (fst (traverse t c h p) = Capped i \<longrightarrow>
        snd (traverse t c h p) = MAX_TREE_DEPTH \<and> t ! i = Internal (first (t ! i)))"
  using descend_depth [of 0 t p 0 c h] descend_capped [of 0 t p 0 c h i]
  by (simp add: traverse_def max_tree_depth)

text \<open>
  The arena \<open>[Internal 0]\<close> is a root whose children start at the root itself: the
  path of the corner point \<open>(-1, -1, -1)\<close> never reaches a leaf, and the traversal
  stops on it at depth 10.
\<close>

theorem traversal_depth_cap_witness:
  "fst (traverse [Internal 0] (0, 0, 0) 1 (- 1, - 1, - 1)) = Capped 0
   \<and> snd (traverse [Internal 0] (0, 0, 0) 1 (- 1, - 1, - 1)) = 10
   \<and> leaves (traverse [Internal 0] (0, 0, 0) 1 (- 1, - 1, - 1)) = []"
proof -
  let ?r = "traverse [Internal 0] (0, 0, 0) 1 (- 1, - 1, - 1)"
  have capped: "fst ?r = Capped 0"
    by (simp add: traverse_def inside_def descend.simps max_tree_depth octant_def
        child_center_def)
  from traversal_depth_cap [of "[Internal 0]" "(0, 0, 0)" 1 "(- 1, - 1, - 1)" 0] capped
  have depth: "snd ?r = 10"
    by simp
  have "leaves ?r = leaves (Capped 0, 10)"
    using capped depth by (metis prod.collapse)
  then show ?thesis
    using capped depth by simp
qed

section \<open>Capacity of the prefetch buffer\<close>

lemma stage_all_fits:
  "length buf + length ws \<le> PREFETCH_BUFFER_SIZE \<Longrightarrow> stage_all buf ws = Some (buf @ ws)"
  by (induction ws arbitrary: buf) (simp_all add: stage_def)

lemma run_pass_overflow:
  "run_pass tiles = Inl WorkspaceOverflow
     \<longleftrightarrow> (\<exists>ws \<in> set tiles. PREFETCH_BUFFER_SIZE < length ws)"
  by (simp add: run_pass_def precondition_check_def list_ex_iff)

lemma run_pass_staged:
  assumes "run_pass tiles = Inr r"
  shows "r = map Some tiles" and "\<forall>ws \<in> set tiles. length ws \<le> PREFETCH_BUFFER_SIZE"
proof -
  from assms have fits: "\<not> (\<exists>ws \<in> set tiles. PREFETCH_BUFFER_SIZE < length ws)"
    by (simp add: run_pass_def precondition_check_def list_ex_iff split: if_splits)
  then show bound: "\<forall>ws \<in> set tiles. length ws \<le> PREFETCH_BUFFER_SIZE"
    by (simp add: not_less)
  from assms fits have "r = map (stage_all []) tiles"
    by (simp add: run_pass_def precondition_check_def list_ex_iff split: if_splits)
  also have "\<dots> = map Some tiles"
    using bound by (simp add: stage_all_fits)
  finally show "r = map Some tiles" .
qed

text \<open>
  C8. The staging buffer of the prefetch pipeline holds at most 8 entries:
  \<^verbatim>\<open>PREFETCH_BUFFER_SIZE\<close> is the literal 8, defined once, so the bound is fixed at
  compile time, and staging never grows a buffer beyond it. A pass over tiles of which
  one has a working set of more than 8 entries is refused with the configuration error
  before anything is staged; a pass that is admitted stages every working set whole, so
  no entry of it overflows the buffer.
\<close>

theorem prefetch_capacity_bound:
  "PREFETCH_BUFFER_SIZE = 8
   \<and> macro_body config_h ''PREFETCH_BUFFER_SIZE'' = Some (Lit 8)
   \<and> definitions_of config_h ''PREFETCH_BUFFER_SIZE'' = 1
   \<and> (stage buf x = Some buf' \<longrightarrow> length buf' \<le> 8)
   \<and> (run_pass tiles = Inl WorkspaceOverflow \<longleftrightarrow> (\<exists>ws \<in> set tiles. 8 < length ws))
   \<and> (run_pass tiles = Inr r \<longrightarrow>
        r = map Some tiles \<and> (\<forall>ws \<in> set tiles. length ws \<le> 8))"
proof -
  have header:
    "macro_body config_h ''PREFETCH_BUFFER_SIZE'' = Some (Lit 8)"
    "definitions_of config_h ''PREFETCH_BUFFER_SIZE'' = 1"
    by (simp_all add: macro_body_def definitions_of_def macros_config_h)
  have slot: "stage buf x = Some buf' \<longrightarrow> length buf' \<le> 8"
    by (auto simp add: stage_def prefetch_buffer_size split: if_splits)
  show ?thesis
    using header slot run_pass_overflow [of tiles] run_pass_staged [of tiles r]
    by (simp add: prefetch_buffer_size)
qed

text \<open>
  A tile with nine entries makes the pass fail before it starts; tiles with two and one
  entries are staged whole, and staging a third entry into a buffer of two succeeds.
\<close>

theorem prefetch_capacity_bound_witness:
  "run_pass [[0, 1, 2, 3, 4, 5, 6, 7, 8 :: nat]] = Inl WorkspaceOverflow
   \<and> run_pass [[1, 2 :: nat], [3]] = Inr [Some [1, 2], Some [3]]
   \<and> stage [1, 2 :: nat] 3 = Some [1, 2, 3]
   \<and> length [1, 2, 3 :: nat] \<le> 8"
proof -
  let ?big = "[[0, 1, 2, 3, 4, 5, 6, 7, 8 :: nat]]"
  let ?ok = "[[1, 2 :: nat], [3]]"
  have "\<exists>ws \<in> set ?big. 8 < length ws"
    by simp
  with prefetch_capacity_bound [of "[]" 0 "[]" ?big "[]"]
  have refused: "run_pass ?big = Inl WorkspaceOverflow"
    by blast
  have "\<not> (\<exists>ws \<in> set ?ok. 8 < length ws)"
    by simp
  with prefetch_capacity_bound [of "[]" 0 "[]" ?ok "[]"]
  have "run_pass ?ok \<noteq> Inl WorkspaceOverflow"
    by blast
  then obtain r where admitted: "run_pass ?ok = Inr r"
    by (cases "run_pass ?ok") (auto intro: pass_error.exhaust)
  with prefetch_capacity_bound [of "[]" 0 "[]" ?ok r]
  have "r = map Some ?ok"
    by blast
  with admitted have staged: "run_pass ?ok = Inr [Some [1, 2], Some [3]]"
    by simp
  have slot: "stage [1, 2 :: nat] 3 = Some [1, 2, 3]"
    by (simp add: stage_def prefetch_buffer_size)
  with prefetch_capacity_bound [of "[1, 2 :: nat]" 3 "[1, 2, 3]" "[]" "[]"]
  have "length [1, 2, 3 :: nat] \<le> 8"
    by blast
  with refused staged slot show ?thesis
    by blast
qed

end
